theory Spec2Isabelle
  imports Main
begin

section \<open>The job controller of avocado (avocado/job.py)\<close>

text \<open>
  The theory embeds the class \<open>Job\<close> of \<^verbatim>\<open>avocado/job.py\<close>: the test resolver
  (\<^verbatim>\<open>_load_test_instance\<close>), the execution loop (\<^verbatim>\<open>test_runner\<close>), the parameter set
  builder and controller (\<^verbatim>\<open>_run\<close>) and the failure classifier (\<^verbatim>\<open>run\<close>).
  A Python method becomes a function that takes the job and returns the changed job
  together with either its result or the exception it raised. Everything the file imports
  (the filesystem, \<^verbatim>\<open>imp\<close>, the test classes, the multiplex parser, the status table)
  is a field of the record \<open>env\<close>.
\<close>

subsection \<open>Exceptions\<close>

text \<open>
  The except clauses of the file tell four kinds of exception apart: an instance of
  \<^verbatim>\<open>exceptions.JobBaseException\<close> (it carries the attribute \<^verbatim>\<open>status\<close>), an instance of
  \<^verbatim>\<open>ImportError\<close>, any other instance of \<^verbatim>\<open>Exception\<close>, and an exception outside the
  \<^verbatim>\<open>Exception\<close> hierarchy (\<^verbatim>\<open>KeyboardInterrupt\<close>, \<^verbatim>\<open>SystemExit\<close>), which no clause
  of the file catches. \<open>exc_class\<close> is \<^verbatim>\<open>details.__class__.__name__\<close>, \<open>exc_str\<close> is
  the text of the exception as a traceback prints it, and \<open>exc_tb\<close> is the traceback, one
  entry for each frame the exception has left so far, the outermost first.
\<close>

datatype exc_kind = JobBaseException string | ImportError | OtherException | NotException

record exn =
  kind :: exc_kind
  exc_class :: string
  exc_str :: string
  exc_tb :: "string list"

definition push_frame :: "string \<Rightarrow> exn \<Rightarrow> exn" where
  "push_frame f e = e\<lparr>exc_tb := f # exc_tb e\<rparr>"

text \<open>An exception that leaves the body of a function gets the entry of its frame.\<close>

definition frame :: "string \<Rightarrow> exn + 'a \<Rightarrow> exn + 'a" where
  "frame f r = (case r of Inl e \<Rightarrow> Inl (push_frame f e) | Inr v \<Rightarrow> Inr v)"

text \<open>The exceptions the interpreter itself raises in this file.\<close>

definition AttributeError :: "string \<Rightarrow> exn" where
  "AttributeError msg =
     \<lparr>kind = OtherException, exc_class = ''AttributeError'', exc_str = msg, exc_tb = []\<rparr>"

definition UnboundLocalError :: "string \<Rightarrow> exn" where
  "UnboundLocalError msg =
     \<lparr>kind = OtherException, exc_class = ''UnboundLocalError'', exc_str = msg, exc_tb = []\<rparr>"

definition KeyError :: "string \<Rightarrow> exn" where
  "KeyError msg =
     \<lparr>kind = OtherException, exc_class = ''KeyError'', exc_str = msg, exc_tb = []\<rparr>"

subsection \<open>Data\<close>

text \<open>A parameter set is a Python dict from strings to strings.\<close>

type_synonym params = "string \<rightharpoonup> string"

text \<open>
  The classes a test instance can have: the two the file names, and a class found in a
  test module (\<^verbatim>\<open>getattr(test_module, url)\<close>).
\<close>

datatype test_class = DropinTest | MissingTest | ModuleTest string

text \<open>
  A test instance as the file constructs it: the class and the keyword arguments of one
  of the two calls, \<^verbatim>\<open>test_class(path=, base_logdir=, job=)\<close> and
  \<^verbatim>\<open>test_class(name=, base_logdir=, params=, job=)\<close>. The job is referred to by its
  \<open>unique_id\<close>.
\<close>

datatype test_instance =
    New_by_path test_class string string string
  | New_by_name test_class string string params string

text \<open>
  What the loop reads from an instance once \<^verbatim>\<open>run_avocado()\<close> has returned: the attributes
  \<^verbatim>\<open>name\<close> and \<^verbatim>\<open>status\<close>. The instance holds a reference to its job, so the run may
  also have written the job's \<^verbatim>\<open>status\<close>: \<open>fin_job_status\<close> is \<open>Some s\<close> then.
\<close>

record finished =
  fin_name :: string
  fin_status :: string
  fin_job_status :: "string option"

text \<open>
  The result collaborator is built from the output manager and \<^verbatim>\<open>args\<close>; \<open>tr_seed\<close> are the
  three attributes \<^verbatim>\<open>_make_test_result\<close> writes into \<^verbatim>\<open>args\<close> for it, when there are args.
\<close>

record test_result =
  tr_class :: string
  tr_seed :: "(string \<times> int \<times> nat) option"

text \<open>
  A replacement execution loop (\<^verbatim>\<open>args.test_runner\<close>) is code outside the file: it raises,
  or returns the failures and may have written the job's status.
\<close>

type_synonym runner = "params list \<Rightarrow> test_result \<Rightarrow> exn + (string list \<times> string option)"

text \<open>
  \<^verbatim>\<open>argparse.Namespace\<close> with the options the file reads; \<open>arg_test_runner\<close> and
  \<open>arg_test_result\<close> are \<open>None\<close> when \<^verbatim>\<open>hasattr\<close> is false.
\<close>

record args =
  arg_unique_id :: "string option"
  arg_log_level :: "int option"
  arg_multiplex_file :: "string option"
  arg_url :: "string option"
  arg_keep_tmp_files :: bool
  arg_test_runner :: "runner option"
  arg_test_result :: "string option"
  arg_test_result_debuglog :: "string option"
  arg_test_result_loglevel :: "int option"
  arg_test_result_total :: "nat option"

text \<open>
  The calls the job makes on its collaborators, in the order they are made: the hooks of
  the result collaborator, \<^verbatim>\<open>run_avocado\<close> of an instance, the two methods of the output
  manager, and \<^verbatim>\<open>data_dir.clean_tmp_files\<close>.
\<close>

datatype call =
    Start_tests
  | Run_avocado test_instance
  | Check_test test_instance finished
  | End_tests
  | Log_fail_header string
  | Output_error string
  | Clean_tmp_files

record job =
  args :: "args option"
  unique_id :: string
  debugdir :: string
  debuglog :: string
  loglevel :: int
  multiplex_file :: "string option"
  test_dir :: string
  test_index :: nat
  status :: string
  calls :: "call list"

text \<open>
  The keys of \<^verbatim>\<open>error_codes.numeric_status\<close> the file returns. The table of their integers
  is in \<^verbatim>\<open>avocado/core/error_codes.py\<close>; the model returns the key.
\<close>

datatype exit_status = AVOCADO_ALL_OK | AVOCADO_TESTS_FAIL | AVOCADO_JOB_FAIL | AVOCADO_CRASH

text \<open>
  What \<^verbatim>\<open>imp.find_module\<close> returns: the open file (\<open>None\<close> for a package), the pathname
  and the description.
\<close>

type_synonym found = "string option \<times> string \<times> string"

text \<open>
  The imported collaborators. \<open>get_dicts file None\<close> is
  \<^verbatim>\<open>Parser(file).get_dicts()\<close>, and \<open>get_dicts file (Some url)\<close> is the same after
  \<^verbatim>\<open>only_filter(url)\<close>. \<open>status_mapping\<close> is the dict \<^verbatim>\<open>status.mapping\<close>.
  \<open>format_exception cls str tb\<close> is \<^verbatim>\<open>traceback.format_exception\<close>.
  \<open>str_of details\<close> is \<^verbatim>\<open>str(details)\<close>, which \<^verbatim>\<open>'%s' % details\<close> calls: it is code of the
  exception's class, and returns the text or raises (for a unicode message that is not
  ASCII, \<^verbatim>\<open>UnicodeEncodeError\<close>). \<open>log_fail_header msg\<close> and \<open>output_error line\<close> are
  the methods \<^verbatim>\<open>log_fail_header\<close> and \<^verbatim>\<open>error\<close> of the job's output manager: \<open>None\<close>
  when the call returns, \<open>Some e\<close> when it raises \<open>e\<close>.
\<close>

record env =
  uuid4 :: string
  get_job_logs_dir :: "args option \<Rightarrow> string"
  get_test_dir :: string
  abspath :: "string \<Rightarrow> string"
  path_exists :: "string \<Rightarrow> bool"
  find_module :: "string \<Rightarrow> string list \<Rightarrow> exn + found"
  load_module :: "string \<Rightarrow> found \<Rightarrow> exn + (string \<rightharpoonup> test_class)"
  run_avocado :: "test_instance \<Rightarrow> exn + finished"
  status_mapping :: "string \<rightharpoonup> bool"
  get_dicts :: "string \<Rightarrow> string option \<Rightarrow> exn + params list"
  format_exception :: "string \<Rightarrow> string \<Rightarrow> string list \<Rightarrow> string list"
  str_of :: "exn \<Rightarrow> exn + string"
  log_fail_header :: "string \<Rightarrow> exn option"
  output_error :: "string \<Rightarrow> exn option"

subsection \<open>Strings and paths\<close>

text \<open>\<^verbatim>\<open>str.split()\<close> with no argument: the maximal runs of characters that are not whitespace.\<close>

definition is_space :: "char \<Rightarrow> bool" where
  "is_space c = (c \<in> set [CHR 0x20, CHR 0x09, CHR 0x0A, CHR 0x0B, CHR 0x0C, CHR 0x0D])"

fun split_from :: "string \<Rightarrow> string \<Rightarrow> string list" where
  "split_from w [] = (if w = [] then [] else [w])"
| "split_from w (c # cs) =
     (if is_space c then (if w = [] then split_from [] cs else w # split_from [] cs)
      else split_from (w @ [c]) cs)"

definition split :: "string \<Rightarrow> string list" where
  "split s = split_from [] s"

text \<open>\<^verbatim>\<open>shortname.split('.')[0]\<close>: the characters before the first dot.\<close>

definition split_dot_first :: "string \<Rightarrow> string" where
  "split_dot_first s = takeWhile (\<lambda>c. c \<noteq> CHR ''.'') s"

text \<open>\<^verbatim>\<open>os.path.join(a, b)\<close> of \<^verbatim>\<open>posixpath\<close>.\<close>

definition path_join :: "string \<Rightarrow> string \<Rightarrow> string" where
  "path_join a b =
     (if b \<noteq> [] \<and> hd b = CHR ''/'' then b
      else if a = [] \<or> last a = CHR ''/'' then a @ b
      else a @ ''/'' @ b)"

subsection \<open>Job construction\<close>

text \<open>
  \<^verbatim>\<open>Job.__init__\<close> (lines 46 to 70). \<^verbatim>\<open>x or y\<close> is \<open>y\<close> when \<open>x\<close> is \<open>None\<close>, the empty
  string or zero; \<^verbatim>\<open>logging.DEBUG\<close> is 10. The output manager starts with no call made.
\<close>

definition DEBUG :: int where
  "DEBUG = 10"

definition Job_init :: "env \<Rightarrow> args option \<Rightarrow> job" where
  "Job_init env a =
     \<lparr>args = a,
       unique_id =
         (case a of
            None \<Rightarrow> uuid4 env
          | Some x \<Rightarrow>
              (case arg_unique_id x of
                 None \<Rightarrow> uuid4 env
               | Some u \<Rightarrow> if u = [] then uuid4 env else u)),
       debugdir = get_job_logs_dir env a,
       debuglog = path_join (get_job_logs_dir env a) ''debug.log'',
       loglevel =
         (case a of
            None \<Rightarrow> DEBUG
          | Some x \<Rightarrow>
              (case arg_log_level x of
                 None \<Rightarrow> DEBUG
               | Some l \<Rightarrow> if l = 0 then DEBUG else l)),
       multiplex_file = (case a of None \<Rightarrow> None | Some x \<Rightarrow> arg_multiplex_file x),
       test_dir = get_test_dir env,
       test_index = 1,
       status = ''RUNNING'',
       calls = []\<rparr>"

definition record_call :: "call \<Rightarrow> job \<Rightarrow> job" where
  "record_call c j = j\<lparr>calls := calls j @ [c]\<rparr>"

subsection \<open>The test resolver\<close>

text \<open>
  The body of the \<^verbatim>\<open>try\<close> of \<^verbatim>\<open>_load_test_instance\<close> (lines 88 to 92): the module is
  looked for in the directory \<^verbatim>\<open>test_dir/url\<close>, loaded, its file closed (\<open>f\<close> is \<open>None\<close>
  for a package, and \<^verbatim>\<open>None.close()\<close> raises) and the attribute \<open>url\<close> read from it.
\<close>

definition discover :: "env \<Rightarrow> job \<Rightarrow> string \<Rightarrow> exn + test_class" where
  "discover env j url =
     (let test_module_dir = path_join (test_dir j) url in
      case find_module env url [test_module_dir] of
        Inl e \<Rightarrow> Inl e
      | Inr (f, p, d) \<Rightarrow>
          (case load_module env url (f, p, d) of
             Inl e \<Rightarrow> Inl e
           | Inr test_module \<Rightarrow>
               (case f of
                  None \<Rightarrow> Inl (AttributeError ''NoneType object has no attribute close'')
                | Some h \<Rightarrow>
                    (case test_module url of
                       None \<Rightarrow> Inl (AttributeError (''module object has no attribute '' @ url))
                     | Some c \<Rightarrow> Inr c))))"

text \<open>
  \<^verbatim>\<open>_load_test_instance\<close> (lines 72 to 100). \<^verbatim>\<open>params.get('shortname')\<close> is \<open>None\<close> for a
  missing key, and \<^verbatim>\<open>None.split\<close> raises. The \<^verbatim>\<open>except\<close> clause catches \<^verbatim>\<open>ImportError\<close>
  only. The \<^verbatim>\<open>finally\<close> clause runs after every other exception too, where the local
  \<^verbatim>\<open>test_class\<close> was never assigned: reading it raises \<^verbatim>\<open>UnboundLocalError\<close>, which
  replaces the exception in flight.
\<close>

definition load_test_instance :: "env \<Rightarrow> job \<Rightarrow> params \<Rightarrow> exn + test_instance" where
  "load_test_instance env j ps =
     frame ''_load_test_instance''
       (case ps ''shortname'' of
          None \<Rightarrow> Inl (AttributeError ''NoneType object has no attribute split'')
        | Some shortname \<Rightarrow>
            (let url = split_dot_first shortname;
                 path_attempt = abspath env url
             in if path_exists env path_attempt
                then Inr (New_by_path DropinTest path_attempt (debugdir j) (unique_id j))
                else
                  (case discover env j url of
                     Inr test_class \<Rightarrow>
                       Inr (New_by_name test_class url (debugdir j) ps (unique_id j))
                   | Inl e \<Rightarrow>
                       if kind e = ImportError
                       then Inr (New_by_name MissingTest url (debugdir j) ps (unique_id j))
                       else Inl (UnboundLocalError
                              ''local variable test_class referenced before assignment''))))"

subsection \<open>The execution loop\<close>

text \<open>\<^verbatim>\<open>run_test\<close> (lines 102 to 112).\<close>

definition set_job_status :: "string option \<Rightarrow> job \<Rightarrow> job" where
  "set_job_status s j = (case s of None \<Rightarrow> j | Some v \<Rightarrow> j\<lparr>status := v\<rparr>)"

definition run_test ::
  "env \<Rightarrow> params \<Rightarrow> job \<Rightarrow> (exn + (test_instance \<times> finished)) \<times> job" where
  "run_test env ps j =
     (case load_test_instance env j ps of
        Inl e \<Rightarrow> (Inl (push_frame ''run_test'' e), j)
      | Inr test_instance \<Rightarrow>
          (let j1 = record_call (Run_avocado test_instance) j in
           case run_avocado env test_instance of
             Inl e \<Rightarrow> (Inl (push_frame ''run_test'' e), j1)
           | Inr fin \<Rightarrow> (Inr (test_instance, fin), set_job_status (fin_job_status fin) j1)))"

text \<open>
  The \<^verbatim>\<open>for\<close> loop of \<^verbatim>\<open>test_runner\<close> (lines 124 to 128), with the list \<^verbatim>\<open>failures\<close> as
  accumulator. \<^verbatim>\<open>status.mapping[s]\<close> raises \<^verbatim>\<open>KeyError\<close> for a status that is not a key.
\<close>

fun test_loop ::
  "env \<Rightarrow> params list \<Rightarrow> string list \<Rightarrow> job \<Rightarrow> (exn + string list) \<times> job" where
  "test_loop env [] failures j = (Inr failures, j)"
| "test_loop env (ps # rest) failures j =
     (case run_test env ps j of
        (Inl e, j1) \<Rightarrow> (Inl e, j1)
      | (Inr (test_instance, fin), j1) \<Rightarrow>
          (let j2 = record_call (Check_test test_instance fin) j1 in
           case status_mapping env (fin_status fin) of
             None \<Rightarrow> (Inl (KeyError (fin_status fin)), j2)
           | Some passed \<Rightarrow>
               test_loop env rest
                 (if \<not> passed then failures @ [fin_name fin] else failures) j2))"

text \<open>\<^verbatim>\<open>test_runner\<close> (lines 114 to 130).\<close>

definition test_runner ::
  "env \<Rightarrow> params list \<Rightarrow> test_result \<Rightarrow> job \<Rightarrow> (exn + string list) \<times> job" where
  "test_runner env params_list tr j =
     (case test_loop env params_list [] (record_call Start_tests j) of
        (Inl e, j1) \<Rightarrow> (Inl (push_frame ''test_runner'' e), j1)
      | (Inr failures, j1) \<Rightarrow> (Inr failures, record_call End_tests j1))"

text \<open>A replacement loop, run on the job.\<close>

definition external_runner ::
  "runner \<Rightarrow> params list \<Rightarrow> test_result \<Rightarrow> job \<Rightarrow> (exn + string list) \<times> job" where
  "external_runner r params_list tr j =
     (case r params_list tr of
        Inl e \<Rightarrow> (Inl e, j)
      | Inr (failures, s) \<Rightarrow> (Inr failures, set_job_status s j))"

text \<open>\<^verbatim>\<open>_make_test_runner\<close> (lines 132 to 137); \<^verbatim>\<open>hasattr(None, ...)\<close> is false.\<close>

definition make_test_runner ::
  "env \<Rightarrow> job \<Rightarrow> params list \<Rightarrow> test_result \<Rightarrow> job \<Rightarrow> (exn + string list) \<times> job" where
  "make_test_runner env j =
     (case args j of
        None \<Rightarrow> test_runner env
      | Some a \<Rightarrow>
          (case arg_test_runner a of
             Some r \<Rightarrow> external_runner r
           | None \<Rightarrow> test_runner env))"

text \<open>
  \<^verbatim>\<open>_make_test_result\<close> (lines 139 to 149): the class is \<^verbatim>\<open>args.test_result\<close> or
  \<^verbatim>\<open>result.HumanTestResult\<close>; with args, three attributes are written into them first.
\<close>

definition make_test_result :: "params list \<Rightarrow> job \<Rightarrow> test_result \<times> job" where
  "make_test_result urls j =
     (let test_result_class =
            (case args j of
               None \<Rightarrow> ''HumanTestResult''
             | Some a \<Rightarrow>
                 (case arg_test_result a of Some c \<Rightarrow> c | None \<Rightarrow> ''HumanTestResult''))
      in case args j of
           None \<Rightarrow> (\<lparr>tr_class = test_result_class, tr_seed = None\<rparr>, j)
         | Some a \<Rightarrow>
             (\<lparr>tr_class = test_result_class,
               tr_seed = Some (debuglog j, loglevel j, length urls)\<rparr>,
              j\<lparr>args := Some (a\<lparr>arg_test_result_debuglog := Some (debuglog j),
                                 arg_test_result_loglevel := Some (loglevel j),
                                 arg_test_result_total := Some (length urls)\<rparr>)\<rparr>))"

subsection \<open>The parameter set builder\<close>

text \<open>
  The argument \<^verbatim>\<open>urls\<close> of \<^verbatim>\<open>_run\<close> and \<^verbatim>\<open>run\<close> is \<open>None\<close>, a string or a list of strings.
\<close>

datatype urls_arg = Urls_str string | Urls_list "string list"

text \<open>Lines 165 to 170. A \<^verbatim>\<open>Namespace\<close> is always true, so \<^verbatim>\<open>self.args\<close> tests for \<open>None\<close>.\<close>

definition normalize_urls :: "job \<Rightarrow> urls_arg option \<Rightarrow> string list option" where
  "normalize_urls j urls =
     (case urls of
        None \<Rightarrow>
          (case args j of
             None \<Rightarrow> None
           | Some a \<Rightarrow> (case arg_url a of None \<Rightarrow> None | Some u \<Rightarrow> Some (split u)))
      | Some (Urls_str s) \<Rightarrow> Some (split s)
      | Some (Urls_list l) \<Rightarrow> Some l)"

text \<open>The dict \<^verbatim>\<open>{'shortname': url}\<close>.\<close>

definition bare :: "string \<Rightarrow> params" where
  "bare url = Map.empty(''shortname'' \<mapsto> url)"

text \<open>Lines 176 to 180.\<close>

definition resolve_multiplex_file :: "env \<Rightarrow> job \<Rightarrow> string option \<Rightarrow> string option" where
  "resolve_multiplex_file env j mf =
     (case mf of
        None \<Rightarrow>
          (case args j of
             None \<Rightarrow> None
           | Some a \<Rightarrow>
               (case arg_multiplex_file a of None \<Rightarrow> None | Some f \<Rightarrow> Some (abspath env f)))
      | Some f \<Rightarrow> Some (abspath env f))"

text \<open>The loop of lines 185 to 193, with \<^verbatim>\<open>params_list\<close> as accumulator.\<close>

fun multiplex_loop :: "env \<Rightarrow> string \<Rightarrow> string list \<Rightarrow> params list \<Rightarrow> exn + params list" where
  "multiplex_loop env file [] params_list = Inr params_list"
| "multiplex_loop env file (url # rest) params_list =
     (case get_dicts env file (Some url) of
        Inl e \<Rightarrow> Inl e
      | Inr dcts \<Rightarrow>
          multiplex_loop env file rest
            (params_list @ (case dcts of [] \<Rightarrow> [bare url] | d # ds \<Rightarrow> dcts)))"

text \<open>Lines 164 to 197 of \<^verbatim>\<open>_run\<close>: the parameter sets to run, in order.\<close>

definition build_params_list ::
  "env \<Rightarrow> job \<Rightarrow> urls_arg option \<Rightarrow> string option \<Rightarrow> exn + params list" where
  "build_params_list env j urls mf =
     (let urls1 = normalize_urls j urls;
          params_list = (case urls1 of None \<Rightarrow> [] | Some us \<Rightarrow> map bare us)
      in case resolve_multiplex_file env j mf of
           None \<Rightarrow> Inr params_list
         | Some file \<Rightarrow>
             (case urls1 of
                Some us \<Rightarrow> multiplex_loop env file us []
              | None \<Rightarrow> get_dicts env file None))"

subsection \<open>The controller\<close>

text \<open>Lines 164 to 202 of \<^verbatim>\<open>_run\<close>: up to the return of the execution loop.\<close>

definition run_loop ::
  "env \<Rightarrow> urls_arg option \<Rightarrow> string option \<Rightarrow> job \<Rightarrow> (exn + string list) \<times> job" where
  "run_loop env urls mf j =
     (case build_params_list env j urls mf of
        Inl e \<Rightarrow> (Inl e, j)
      | Inr params_list \<Rightarrow>
          (case make_test_result params_list j of
             (test_result, j1) \<Rightarrow> make_test_runner env j1 params_list test_result j1))"

text \<open>Lines 203 to 213 of \<^verbatim>\<open>_run\<close>: what the controller does with the failures.\<close>

definition finish :: "string list \<Rightarrow> job \<Rightarrow> exit_status \<times> job" where
  "finish failures j =
     (let j1 = (if status j = ''RUNNING'' then j\<lparr>status := ''PASS''\<rparr> else j);
          j2 = (case args j1 of
                  None \<Rightarrow> j1
                | Some a \<Rightarrow>
                    if \<not> arg_keep_tmp_files a then record_call Clean_tmp_files j1 else j1)
      in (if failures = [] then AVOCADO_ALL_OK else AVOCADO_TESTS_FAIL, j2))"

text \<open>\<^verbatim>\<open>_run\<close> (lines 151 to 213).\<close>

definition unhandled_run ::
  "env \<Rightarrow> urls_arg option \<Rightarrow> string option \<Rightarrow> job \<Rightarrow> (exn + exit_status) \<times> job" where
  "unhandled_run env urls mf j =
     (case run_loop env urls mf j of
        (Inl e, j1) \<Rightarrow> (Inl (push_frame ''_run'' e), j1)
      | (Inr failures, j1) \<Rightarrow>
          (case finish failures j1 of (code, j2) \<Rightarrow> (Inr code, j2)))"

subsection \<open>The failure classifier\<close>

definition NEW_ISSUE_LINK :: string where
  "NEW_ISSUE_LINK = ''https://github.com/avocado-framework/avocado/issues/new''"

text \<open>
  \<^verbatim>\<open>'...%s: %s' % (fail_class, details)\<close> (lines 238 and 247): the text is
  \<^verbatim>\<open>str(details)\<close>, which may raise.
\<close>

definition format_failure :: "env \<Rightarrow> string \<Rightarrow> exn \<Rightarrow> exn + string" where
  "format_failure env prefix details =
     (case str_of env details of
        Inl e \<Rightarrow> Inl e
      | Inr s \<Rightarrow> Inr (prefix @ exc_class details @ '': '' @ s))"

text \<open>A call of \<^verbatim>\<open>self.output_manager.log_fail_header\<close>: it is made, and returns or raises.\<close>

definition emit_fail_header :: "env \<Rightarrow> string \<Rightarrow> job \<Rightarrow> (exn + unit) \<times> job" where
  "emit_fail_header env msg j =
     (case log_fail_header env msg of
        Some e \<Rightarrow> (Inl e, record_call (Log_fail_header msg) j)
      | None \<Rightarrow> (Inr (), record_call (Log_fail_header msg) j))"

text \<open>The loop of lines 249 and 250: \<^verbatim>\<open>self.output_manager.error(line)\<close> for each line.\<close>

fun emit_errors :: "env \<Rightarrow> string list \<Rightarrow> job \<Rightarrow> (exn + unit) \<times> job" where
  "emit_errors env [] j = (Inr (), j)"
| "emit_errors env (line # rest) j =
     (case output_error env line of
        Some e \<Rightarrow> (Inl e, record_call (Output_error line) j)
      | None \<Rightarrow> emit_errors env rest (record_call (Output_error line) j))"

text \<open>
  The clause \<^verbatim>\<open>except exceptions.JobBaseException\<close> (lines 236 to 240). The status is
  written first; the formatting and the call of the output manager that follow are not
  guarded.
\<close>

definition job_failed :: "env \<Rightarrow> string \<Rightarrow> exn \<Rightarrow> job \<Rightarrow> (exn + exit_status) \<times> job" where
  "job_failed env st details j =
     (let j1 = j\<lparr>status := st\<rparr> in
      case format_failure env ''Avocado job failed: '' details of
        Inl e \<Rightarrow> (Inl e, j1)
      | Inr msg \<Rightarrow>
          (case emit_fail_header env msg j1 of
             (Inl e, j2) \<Rightarrow> (Inl e, j2)
           | (Inr u, j2) \<Rightarrow> (Inr AVOCADO_JOB_FAIL, j2)))"

text \<open>
  The clause \<^verbatim>\<open>except Exception\<close> (lines 242 to 256). In the handler the traceback starts
  with the frame of \<^verbatim>\<open>run\<close> itself; \<^verbatim>\<open>exc_traceback.tb_next\<close> is the rest. Nothing in the
  clause is guarded either.
\<close>

definition crashed :: "env \<Rightarrow> exn \<Rightarrow> job \<Rightarrow> (exn + exit_status) \<times> job" where
  "crashed env details j =
     (let j1 = j\<lparr>status := ''ERROR''\<rparr>;
          exc_traceback = ''run'' # exc_tb details;
          tb_info = format_exception env (exc_class details) (exc_str details) (tl exc_traceback)
      in case format_failure env ''Avocado crashed: '' details of
           Inl e \<Rightarrow> (Inl e, j1)
         | Inr msg \<Rightarrow>
             (case emit_fail_header env msg j1 of
                (Inl e, j2) \<Rightarrow> (Inl e, j2)
              | (Inr u, j2) \<Rightarrow>
                  (case emit_errors env tb_info j2 of
                     (Inl e, j3) \<Rightarrow> (Inl e, j3)
                   | (Inr u, j3) \<Rightarrow>
                       (case emit_fail_header env
                               ''Please include the traceback info and command line used on your bug report''
                               j3 of
                          (Inl e, j4) \<Rightarrow> (Inl e, j4)
                        | (Inr u, j4) \<Rightarrow>
                            (case emit_fail_header env
                                    (''Report bugs visiting '' @ NEW_ISSUE_LINK) j4 of
                               (Inl e, j5) \<Rightarrow> (Inl e, j5)
                             | (Inr u, j5) \<Rightarrow> (Inr AVOCADO_CRASH, j5))))))"

text \<open>An exception raised inside an except clause is caught by no clause and leaves \<^verbatim>\<open>run\<close>.\<close>

definition from_handler :: "(exn + exit_status) \<times> job \<Rightarrow> (exn + exit_status) \<times> job" where
  "from_handler r =
     (case r of
        (Inl e, j) \<Rightarrow> (Inl (push_frame ''run'' e), j)
      | (Inr code, j) \<Rightarrow> (Inr code, j))"

text \<open>
  \<^verbatim>\<open>run\<close> (lines 215 to 256). An exception that is no instance of \<^verbatim>\<open>Exception\<close> matches
  neither clause and leaves \<^verbatim>\<open>run\<close>.
\<close>

definition run ::
  "env \<Rightarrow> urls_arg option \<Rightarrow> string option \<Rightarrow> job \<Rightarrow> (exn + exit_status) \<times> job" where
  "run env urls mf j =
     (case unhandled_run env urls mf j of
        (Inr code, j1) \<Rightarrow> (Inr code, j1)
      | (Inl details, j1) \<Rightarrow>
          (case kind details of
             JobBaseException st \<Rightarrow> from_handler (job_failed env st details j1)
           | ImportError \<Rightarrow> from_handler (crashed env details j1)
           | OtherException \<Rightarrow> from_handler (crashed env details j1)
           | NotException \<Rightarrow> (Inl (push_frame ''run'' details), j1)))"

subsection \<open>A concrete installation\<close>

text \<open>
  An environment to run the model on. The working directory is \<^verbatim>\<open>/cwd\<close> and holds the
  file \<^verbatim>\<open>dropin\<close>; the test root \<^verbatim>\<open>/tests\<close> holds the modules \<^verbatim>\<open>sleeptest\<close> (with the
  class \<^verbatim>\<open>sleeptest\<close>), \<^verbatim>\<open>dropin\<close> (with the class \<^verbatim>\<open>dropin\<close>) and \<^verbatim>\<open>noattr\<close> (which
  defines no class of its name). The multiplex file \<^verbatim>\<open>/cwd/mux\<close> has two variants of
  \<^verbatim>\<open>sleeptest\<close>. The output manager never raises; the text of an exception is its
  \<open>exc_str\<close>, but for the one marked as unicode text, whose \<^verbatim>\<open>str\<close> raises.
\<close>

definition demo_exn :: "exc_kind \<Rightarrow> string \<Rightarrow> string \<Rightarrow> exn" where
  "demo_exn k c m = \<lparr>kind = k, exc_class = c, exc_str = m, exc_tb = [''run_avocado'']\<rparr>"

definition demo_find_module :: "string \<Rightarrow> string list \<Rightarrow> exn + found" where
  "demo_find_module nm dirs =
     (if nm = ''sleeptest'' \<and> dirs = [''/tests/sleeptest'']
      then Inr (Some ''sleeptest.py'', ''/tests/sleeptest/sleeptest.py'', ''.py'')
      else if nm = ''dropin'' \<and> dirs = [''/tests/dropin'']
      then Inr (Some ''dropin.py'', ''/tests/dropin/dropin.py'', ''.py'')
      else if nm = ''noattr'' \<and> dirs = [''/tests/noattr'']
      then Inr (Some ''noattr.py'', ''/tests/noattr/noattr.py'', ''.py'')
      else Inl \<lparr>kind = ImportError, exc_class = ''ImportError'',
                exc_str = ''No module named '' @ nm, exc_tb = []\<rparr>)"

definition demo_load_module :: "string \<Rightarrow> found \<Rightarrow> exn + (string \<rightharpoonup> test_class)" where
  "demo_load_module nm f =
     (if nm = ''noattr'' then Inr (Map.empty(''other'' \<mapsto> ModuleTest ''other''))
      else Inr (Map.empty(nm \<mapsto> ModuleTest nm)))"

definition demo_finished :: "string \<Rightarrow> string \<Rightarrow> finished" where
  "demo_finished n s = \<lparr>fin_name = n, fin_status = s, fin_job_status = None\<rparr>"

definition demo_run_avocado :: "test_instance \<Rightarrow> exn + finished" where
  "demo_run_avocado t =
     (case t of
        New_by_path c p d u \<Rightarrow> Inr (demo_finished p ''PASS'')
      | New_by_name c n d ps u \<Rightarrow>
          (if n = ''interrupt''
           then Inl (demo_exn NotException ''KeyboardInterrupt'' [])
           else if n = ''jobfail''
           then Inl (demo_exn (JobBaseException ''FAIL'') ''JobBaseException'' ''no space left'')
           else if n = ''crash''
           then Inl (demo_exn OtherException ''ValueError'' ''bad value'')
           else if n = ''unicode''
           then Inl (demo_exn OtherException ''ValueError'' ''<unicode text>'')
           else if n = ''fatal''
           then Inr \<lparr>fin_name = n, fin_status = ''ERROR'', fin_job_status = Some ''FAIL''\<rparr>
           else (case c of
                   MissingTest \<Rightarrow> Inr (demo_finished n ''ERROR'')
                 | DropinTest \<Rightarrow> Inr (demo_finished n ''PASS'')
                 | ModuleTest m \<Rightarrow> Inr (demo_finished n ''PASS''))))"

definition demo_variants :: "params list" where
  "demo_variants =
     [Map.empty(''shortname'' \<mapsto> ''sleeptest.short'', ''sleep_length'' \<mapsto> ''1''),
      Map.empty(''shortname'' \<mapsto> ''sleeptest.long'', ''sleep_length'' \<mapsto> ''5'')]"

definition demo_get_dicts :: "string \<Rightarrow> string option \<Rightarrow> exn + params list" where
  "demo_get_dicts file url =
     (if file = ''/cwd/mux''
      then (case url of
              None \<Rightarrow> Inr demo_variants
            | Some u \<Rightarrow> if u = ''sleeptest'' then Inr demo_variants else Inr [])
      else Inl \<lparr>kind = OtherException, exc_class = ''IOError'',
                exc_str = ''No such file'', exc_tb = [''Parser'']\<rparr>)"

definition demo_format_exception :: "string \<Rightarrow> string \<Rightarrow> string list \<Rightarrow> string list" where
  "demo_format_exception c m tb =
     (if tb = [] then [] else ''Traceback (most recent call last):'' # tb) @ [c @ '': '' @ m]"

definition demo_str_of :: "exn \<Rightarrow> exn + string" where
  "demo_str_of e =
     (if exc_str e = ''<unicode text>''
      then Inl \<lparr>kind = OtherException, exc_class = ''UnicodeEncodeError'',
                exc_str = ''ordinal not in range(128)'', exc_tb = []\<rparr>
      else Inr (exc_str e))"

definition demo_env :: env where
  "demo_env =
     \<lparr>uuid4 = ''7c7b4d2e'',
      get_job_logs_dir = (\<lambda>a. ''/logs/run-1''),
      get_test_dir = ''/tests'',
      abspath = (\<lambda>p. if p \<noteq> [] \<and> hd p = CHR ''/'' then p else ''/cwd/'' @ p),
      path_exists = (\<lambda>p. p = ''/cwd/dropin''),
      find_module = demo_find_module,
      load_module = demo_load_module,
      run_avocado = demo_run_avocado,
      status_mapping = Map.empty(''PASS'' \<mapsto> True, ''FAIL'' \<mapsto> False, ''ERROR'' \<mapsto> False),
      get_dicts = demo_get_dicts,
      format_exception = demo_format_exception,
      str_of = demo_str_of,
      log_fail_header = (\<lambda>msg. None),
      output_error = (\<lambda>line. None)\<rparr>"

definition demo_args :: args where
  "demo_args =
     \<lparr>arg_unique_id = None,
      arg_log_level = None,
      arg_multiplex_file = None,
      arg_url = Some ''sleeptest missing'',
      arg_keep_tmp_files = False,
      arg_test_runner = None,
      arg_test_result = None,
      arg_test_result_debuglog = None,
      arg_test_result_loglevel = None,
      arg_test_result_total = None\<rparr>"

subsection \<open>Jobs that are set up alike\<close>

text \<open>
  Two jobs are set up alike when they agree on everything a run reads before it writes:
  the options of the args other than the three attributes \<^verbatim>\<open>_make_test_result\<close> overwrites,
  and the fields of the job other than \<^verbatim>\<open>status\<close> and the calls made so far.
\<close>

definition same_options :: "args option \<Rightarrow> args option \<Rightarrow> bool" where
  "same_options x y =
     (case x of
        None \<Rightarrow> (case y of None \<Rightarrow> True | Some b \<Rightarrow> False)
      | Some a \<Rightarrow>
          (case y of
             None \<Rightarrow> False
           | Some b \<Rightarrow>
               arg_url a = arg_url b \<and> arg_multiplex_file a = arg_multiplex_file b \<and>
               arg_keep_tmp_files a = arg_keep_tmp_files b \<and>
               arg_test_runner a = arg_test_runner b \<and>
               arg_test_result a = arg_test_result b))"

definition same_setup :: "job \<Rightarrow> job \<Rightarrow> bool" where
  "same_setup j k =
     (same_options (args j) (args k) \<and> unique_id j = unique_id k \<and>
      debugdir j = debugdir k \<and> debuglog j = debuglog k \<and> loglevel j = loglevel k \<and>
      test_dir j = test_dir k)"

subsection \<open>Counting the cleanups\<close>

text \<open>How often \<^verbatim>\<open>data_dir.clean_tmp_files\<close> has been called on behalf of a job.\<close>

fun is_cleanup :: "call \<Rightarrow> bool" where
  "is_cleanup Clean_tmp_files = True"
| "is_cleanup c = False"

definition cleanups :: "job \<Rightarrow> nat" where
  "cleanups j = length (filter is_cleanup (calls j))"

text \<open>The cleanup of \<^verbatim>\<open>_run\<close> (line 207) is decided by the args alone.\<close>

definition cleanup_due :: "job \<Rightarrow> nat" where
  "cleanup_due j =
     (case args j of None \<Rightarrow> 0 | Some a \<Rightarrow> if arg_keep_tmp_files a then 0 else 1)"

section \<open>Properties\<close>

subsection \<open>Evaluating the concrete installation\<close>

lemmas demo_simps =
  demo_env_def demo_find_module_def demo_load_module_def demo_run_avocado_def
  demo_get_dicts_def demo_format_exception_def demo_finished_def demo_exn_def
  demo_variants_def demo_args_def demo_str_of_def

lemmas model_simps =
  Job_init_def load_test_instance_def discover_def run_test_def test_runner_def
  make_test_runner_def make_test_result_def external_runner_def normalize_urls_def
  resolve_multiplex_file_def build_params_list_def run_loop_def finish_def
  unhandled_run_def run_def job_failed_def crashed_def from_handler_def format_failure_def
  emit_fail_header_def record_call_def set_job_status_def
  frame_def push_frame_def bare_def split_dot_first_def path_join_def split_def is_space_def
  AttributeError_def UnboundLocalError_def KeyError_def DEBUG_def NEW_ISSUE_LINK_def Let_def

subsection \<open>The test resolver\<close>

text \<open>
  When discovery fails with \<^verbatim>\<open>ImportError\<close> (the directory or the module is missing, or
  the module's own imports fail), the resolver returns a \<^verbatim>\<open>MissingTest\<close> built from the
  prefix, the job's log directory, the whole parameter set and the job.
\<close>

lemma resolver_import_error_fallback:
  assumes "ps ''shortname'' = Some s"
    and "\<not> path_exists env (abspath env (split_dot_first s))"
    and "discover env j (split_dot_first s) = Inl e"
    and "kind e = ImportError"
  shows "load_test_instance env j ps =
           Inr (New_by_name MissingTest (split_dot_first s) (debugdir j) ps (unique_id j))"
  using assms by (simp add: load_test_instance_def frame_def)

text \<open>
  C1. The claim: for a parameter set with key \<open>shortname\<close> whose prefix is no filesystem
  path, the resolver never raises and falls back to a \<^verbatim>\<open>MissingTest\<close> on every failure of
  discovery, a missing attribute among them. The code does not: the module \<^verbatim>\<open>noattr\<close> is
  found and loaded but has no attribute \<^verbatim>\<open>noattr\<close>, \<^verbatim>\<open>getattr\<close> raises
  \<^verbatim>\<open>AttributeError\<close>, the clause \<^verbatim>\<open>except ImportError\<close> does not catch it, and the
  \<^verbatim>\<open>finally\<close> clause reads the unassigned \<^verbatim>\<open>test_class\<close>: the resolver raises
  \<^verbatim>\<open>UnboundLocalError\<close>.
\<close>

theorem resolver_missing_attribute_raises:
  "bare ''noattr'' ''shortname'' = Some ''noattr'' \<and>
   \<not> path_exists demo_env (abspath demo_env ''noattr'') \<and>
   discover demo_env (Job_init demo_env None) ''noattr'' =
     Inl (AttributeError ''module object has no attribute noattr'') \<and>
   load_test_instance demo_env (Job_init demo_env None) (bare ''noattr'') =
     Inl \<lparr>kind = OtherException, exc_class = ''UnboundLocalError'',
          exc_str = ''local variable test_class referenced before assignment'',
          exc_tb = [''_load_test_instance'']\<rparr>"
  by (simp add: model_simps demo_simps)


text \<open>The fields of a new job.\<close>

lemma Job_init_fields [simp]:
  "args (Job_init env a) = a"
  "status (Job_init env a) = ''RUNNING''"
  "calls (Job_init env a) = []"
  "debugdir (Job_init env a) = get_job_logs_dir env a"
  "test_dir (Job_init env a) = get_test_dir env"
  by (simp_all add: Job_init_def)

text \<open>
  C7. If the prefix of \<open>shortname\<close> (the characters before the first dot), made absolute,
  exists as a path, the resolver returns a \<^verbatim>\<open>DropinTest\<close> built from that path, the job's
  log directory and the job, and from nothing else: it is given no params. Nothing is
  assumed about \<^verbatim>\<open>imp.find_module\<close>: a module of the same name does not change the result.
\<close>

theorem resolver_path_wins:
  assumes "ps ''shortname'' = Some s"
    and "path_exists env (abspath env (split_dot_first s))"
  shows "load_test_instance env j ps =
           Inr (New_by_path DropinTest (abspath env (split_dot_first s)) (debugdir j) (unique_id j))"
  using assms by (simp add: load_test_instance_def frame_def)

theorem resolver_path_wins_witness:
  "bare ''dropin.first'' ''shortname'' = Some ''dropin.first'' \<and>
   path_exists demo_env (abspath demo_env (split_dot_first ''dropin.first'')) \<and>
   discover demo_env (Job_init demo_env None) ''dropin'' = Inr (ModuleTest ''dropin'') \<and>
   load_test_instance demo_env (Job_init demo_env None) (bare ''dropin.first'') =
     Inr (New_by_path DropinTest ''/cwd/dropin'' ''/logs/run-1'' ''7c7b4d2e'')"
proof -
  have a: "bare ''dropin.first'' ''shortname'' = Some ''dropin.first''"
    by (simp add: bare_def)
  have b: "path_exists demo_env (abspath demo_env (split_dot_first ''dropin.first''))"
    by (simp add: demo_env_def split_dot_first_def)
  have c: "discover demo_env (Job_init demo_env None) ''dropin'' = Inr (ModuleTest ''dropin'')"
    by (simp add: model_simps demo_simps)
  show ?thesis
    using resolver_path_wins [of "bare ''dropin.first''" "''dropin.first''" demo_env
        "Job_init demo_env None"] a b c
    by (simp add: demo_env_def split_dot_first_def Job_init_def)
qed

subsection \<open>The parameter set builder\<close>

text \<open>
  C4. With a list of identifiers and no multiplex file (none passed, and none in the
  args), the parameter sets are the dicts \<^verbatim>\<open>{'shortname': url}\<close> of the identifiers, one for
  each and in their order.
\<close>

theorem params_without_multiplex:
  assumes "case args j of None \<Rightarrow> True | Some a \<Rightarrow> arg_multiplex_file a = None"
  shows "build_params_list env j (Some (Urls_list urls)) None =
           Inr (map (\<lambda>url. Map.empty(''shortname'' \<mapsto> url)) urls)"
  using assms
  by (auto simp: build_params_list_def normalize_urls_def resolve_multiplex_file_def bare_def
           split: option.splits)

theorem params_without_multiplex_witness:
  "args (Job_init demo_env (Some demo_args)) = Some demo_args \<and>
   arg_multiplex_file demo_args = None \<and>
   build_params_list demo_env (Job_init demo_env (Some demo_args))
     (Some (Urls_list [''sleeptest'', ''missing.x'', ''sleeptest''])) None =
   Inr [Map.empty(''shortname'' \<mapsto> ''sleeptest''), Map.empty(''shortname'' \<mapsto> ''missing.x''),
        Map.empty(''shortname'' \<mapsto> ''sleeptest'')]"
proof -
  have a: "case args (Job_init demo_env (Some demo_args)) of None \<Rightarrow> True
           | Some a \<Rightarrow> arg_multiplex_file a = None"
    by (simp add: demo_args_def)
  show ?thesis
    using params_without_multiplex [OF a, of demo_env "[''sleeptest'', ''missing.x'', ''sleeptest'']"]
    by (simp add: demo_args_def)
qed

text \<open>
  The multiplex loop, when the parser raises for no identifier: each identifier adds its
  variants, or its bare dict when it has none.
\<close>

lemma multiplex_loop_acc:
  assumes "\<forall>url\<in>set urls. get_dicts env file (Some url) = Inr (variants url)"
  shows "multiplex_loop env file urls acc =
           Inr (acc @ concat (map (\<lambda>url. case variants url of [] \<Rightarrow> [bare url] | d # ds \<Rightarrow> variants url) urls))"
  using assms by (induction urls arbitrary: acc) simp_all

text \<open>
  C5. With identifiers and a multiplex file, the parameter sets are, for each identifier in
  order, the variants the parser yields when filtered to it, in the parser's order, or
  the one dict \<^verbatim>\<open>{'shortname': url}\<close> when it yields none.
\<close>

theorem params_with_multiplex:
  assumes "normalize_urls j urls = Some us"
    and "resolve_multiplex_file env j mf = Some file"
    and "\<forall>url\<in>set us. get_dicts env file (Some url) = Inr (variants url)"
  shows "build_params_list env j urls mf =
           Inr (concat (map (\<lambda>url. case variants url of
                                     [] \<Rightarrow> [Map.empty(''shortname'' \<mapsto> url)]
                                   | d # ds \<Rightarrow> variants url) us))"
  using assms(1,2) multiplex_loop_acc [OF assms(3), of "[]"]
  unfolding build_params_list_def bare_def by simp

theorem params_with_multiplex_witness:
  "normalize_urls (Job_init demo_env None) (Some (Urls_str ''missing sleeptest dropin'')) =
     Some [''missing'', ''sleeptest'', ''dropin''] \<and>
   resolve_multiplex_file demo_env (Job_init demo_env None) (Some ''mux'') = Some ''/cwd/mux'' \<and>
   build_params_list demo_env (Job_init demo_env None)
     (Some (Urls_str ''missing sleeptest dropin'')) (Some ''mux'') =
   Inr [Map.empty(''shortname'' \<mapsto> ''missing''),
        Map.empty(''shortname'' \<mapsto> ''sleeptest.short'', ''sleep_length'' \<mapsto> ''1''),
        Map.empty(''shortname'' \<mapsto> ''sleeptest.long'', ''sleep_length'' \<mapsto> ''5''),
        Map.empty(''shortname'' \<mapsto> ''dropin'')]"
proof -
  let ?v = "\<lambda>u. if u = ''sleeptest'' then demo_variants else []"
  have a: "normalize_urls (Job_init demo_env None) (Some (Urls_str ''missing sleeptest dropin'')) =
     Some [''missing'', ''sleeptest'', ''dropin'']"
    by (simp add: normalize_urls_def split_def is_space_def)
  have b: "resolve_multiplex_file demo_env (Job_init demo_env None) (Some ''mux'') = Some ''/cwd/mux''"
    by (simp add: resolve_multiplex_file_def demo_env_def)
  have c: "\<forall>url\<in>set [''missing'', ''sleeptest'', ''dropin''].
             get_dicts demo_env ''/cwd/mux'' (Some url) = Inr (?v url)"
    by (simp add: demo_env_def demo_get_dicts_def)
  show ?thesis
    using params_with_multiplex [OF a b c] a b
    by (simp add: demo_variants_def)
qed


subsection \<open>The execution loop\<close>

text \<open>
  The resolver reads three fields of the job only, and the loop changes none of them. When
  every parameter set resolves, runs to its end and ends in a status the table knows, the
  loop runs them all.
\<close>

lemma load_test_instance_fields:
  assumes "debugdir j = debugdir k" and "test_dir j = test_dir k" and "unique_id j = unique_id k"
  shows "load_test_instance env j ps = load_test_instance env k ps"
  unfolding load_test_instance_def discover_def assms by (rule refl)

lemma run_test_returns:
  assumes "load_test_instance env j ps = Inr i" and "run_avocado env i = Inr f"
  shows "run_test env ps j =
           (Inr (i, f), set_job_status (fin_job_status f) (record_call (Run_avocado i) j))"
  using assms by (simp add: run_test_def)

lemma test_loop_returns:
  assumes "\<forall>ps\<in>set params_list.
             load_test_instance env j0 ps = Inr (inst ps) \<and>
             run_avocado env (inst ps) = Inr (fin ps) \<and>
             status_mapping env (fin_status (fin ps)) = Some (passed ps)"
    and "debugdir j = debugdir j0" and "test_dir j = test_dir j0"
    and "unique_id j = unique_id j0"
  shows "\<exists>s. test_loop env params_list failures j =
           (Inr (failures @ map (\<lambda>ps. fin_name (fin ps)) (filter (\<lambda>ps. \<not> passed ps) params_list)),
            j\<lparr>status := s,
              calls := calls j @
                concat (map (\<lambda>ps. [Run_avocado (inst ps), Check_test (inst ps) (fin ps)])
                          params_list)\<rparr>)"
  using assms
proof (induction params_list arbitrary: failures j)
  case Nil
  have "j = j\<lparr>status := status j, calls := calls j\<rparr>" by simp
  then show ?case by (metis append_Nil2 concat.simps(1) filter.simps(1) list.map(1) test_loop.simps(1))
next
  case (Cons ps rest)
  let ?j1 = "set_job_status (fin_job_status (fin ps)) (record_call (Run_avocado (inst ps)) j)"
  let ?j2 = "record_call (Check_test (inst ps) (fin ps)) ?j1"
  let ?fs = "if \<not> passed ps then failures @ [fin_name (fin ps)] else failures"
  have l: "load_test_instance env j ps = Inr (inst ps)"
    using Cons.prems load_test_instance_fields [of j j0 env ps] by simp
  have r: "run_test env ps j = (Inr (inst ps, fin ps), ?j1)"
    using l Cons.prems(1) by (simp add: run_test_returns)
  have m: "status_mapping env (fin_status (fin ps)) = Some (passed ps)"
    using Cons.prems(1) by simp
  have step: "test_loop env (ps # rest) failures j = test_loop env rest ?fs ?j2"
    using r m by simp
  have f: "debugdir ?j2 = debugdir j0" "test_dir ?j2 = test_dir j0" "unique_id ?j2 = unique_id j0"
    using Cons.prems(2-4)
    by (simp_all add: record_call_def set_job_status_def split: option.splits)
  have "\<forall>ps\<in>set rest.
             load_test_instance env j0 ps = Inr (inst ps) \<and>
             run_avocado env (inst ps) = Inr (fin ps) \<and>
             status_mapping env (fin_status (fin ps)) = Some (passed ps)"
    using Cons.prems(1) by simp
  from Cons.IH [OF this f, of ?fs] obtain s where
    ih: "test_loop env rest ?fs ?j2 =
           (Inr (?fs @ map (\<lambda>ps. fin_name (fin ps)) (filter (\<lambda>ps. \<not> passed ps) rest)),
            ?j2\<lparr>status := s,
              calls := calls ?j2 @
                concat (map (\<lambda>ps. [Run_avocado (inst ps), Check_test (inst ps) (fin ps)])
                          rest)\<rparr>)"
    by blast
  have "?j2\<lparr>status := s,
              calls := calls ?j2 @
                concat (map (\<lambda>ps. [Run_avocado (inst ps), Check_test (inst ps) (fin ps)])
                          rest)\<rparr> =
        j\<lparr>status := s,
              calls := calls j @
                concat (map (\<lambda>ps. [Run_avocado (inst ps), Check_test (inst ps) (fin ps)])
                          (ps # rest))\<rparr>"
    by (simp add: record_call_def set_job_status_def split: option.splits)
  then show ?case using step ih by auto
qed

text \<open>
  The loop when nothing raises: if every parameter set of the list resolves to an instance,
  its \<^verbatim>\<open>run_avocado\<close> returns and its final status is a key of \<^verbatim>\<open>status.mapping\<close>, the
  default loop calls \<^verbatim>\<open>start_tests\<close>, then for each parameter set in order
  \<^verbatim>\<open>run_avocado\<close> of its instance followed by \<^verbatim>\<open>check_test\<close> with the finished instance,
  then \<^verbatim>\<open>end_tests\<close>, and makes no other call; it returns the names of the instances whose
  status maps to false, in order. A test that does not pass stops nothing, and a test is
  run only after the \<^verbatim>\<open>check_test\<close> of the one before it.
\<close>

theorem test_runner_sequence:
  assumes "\<forall>ps\<in>set params_list.
             load_test_instance env j ps = Inr (inst ps) \<and>
             run_avocado env (inst ps) = Inr (fin ps) \<and>
             status_mapping env (fin_status (fin ps)) = Some (passed ps)"
  shows "fst (test_runner env params_list tr j) =
           Inr (map (\<lambda>ps. fin_name (fin ps)) (filter (\<lambda>ps. \<not> passed ps) params_list)) \<and>
         calls (snd (test_runner env params_list tr j)) =
           calls j @ [Start_tests] @
           concat (map (\<lambda>ps. [Run_avocado (inst ps), Check_test (inst ps) (fin ps)]) params_list) @
           [End_tests]"
proof -
  let ?j = "record_call Start_tests j"
  have "debugdir ?j = debugdir j" "test_dir ?j = test_dir j" "unique_id ?j = unique_id j"
    by (simp_all add: record_call_def)
  from test_loop_returns [OF assms this, of "[]"] obtain s where
    "test_loop env params_list [] ?j =
           (Inr (map (\<lambda>ps. fin_name (fin ps)) (filter (\<lambda>ps. \<not> passed ps) params_list)),
            ?j\<lparr>status := s,
              calls := calls ?j @
                concat (map (\<lambda>ps. [Run_avocado (inst ps), Check_test (inst ps) (fin ps)])
                          params_list)\<rparr>)"
    by auto
  then show ?thesis
    by (simp add: test_runner_def record_call_def)
qed

theorem test_runner_sequence_witness:
  "fst (test_runner demo_env [bare ''missing.x'', bare ''dropin'']
          \<lparr>tr_class = ''HumanTestResult'', tr_seed = None\<rparr> (Job_init demo_env None)) =
     Inr [''missing''] \<and>
   calls (snd (test_runner demo_env [bare ''missing.x'', bare ''dropin'']
          \<lparr>tr_class = ''HumanTestResult'', tr_seed = None\<rparr> (Job_init demo_env None))) =
     [Start_tests,
      Run_avocado (New_by_name MissingTest ''missing'' ''/logs/run-1'' (bare ''missing.x'') ''7c7b4d2e''),
      Check_test (New_by_name MissingTest ''missing'' ''/logs/run-1'' (bare ''missing.x'') ''7c7b4d2e'')
        (demo_finished ''missing'' ''ERROR''),
      Run_avocado (New_by_path DropinTest ''/cwd/dropin'' ''/logs/run-1'' ''7c7b4d2e''),
      Check_test (New_by_path DropinTest ''/cwd/dropin'' ''/logs/run-1'' ''7c7b4d2e'')
        (demo_finished ''/cwd/dropin'' ''PASS''),
      End_tests]"
proof -
  let ?inst = "\<lambda>ps. if ps ''shortname'' = Some ''dropin''
                     then New_by_path DropinTest ''/cwd/dropin'' ''/logs/run-1'' ''7c7b4d2e''
                     else New_by_name MissingTest ''missing'' ''/logs/run-1'' ps ''7c7b4d2e''"
  let ?fin = "\<lambda>ps. if ps ''shortname'' = Some ''dropin''
                    then demo_finished ''/cwd/dropin'' ''PASS''
                    else demo_finished ''missing'' ''ERROR''"
  let ?passed = "\<lambda>ps::params. ps ''shortname'' = Some ''dropin''"
  have h: "\<forall>ps\<in>set [bare ''missing.x'', bare ''dropin''].
             load_test_instance demo_env (Job_init demo_env None) ps = Inr (?inst ps) \<and>
             run_avocado demo_env (?inst ps) = Inr (?fin ps) \<and>
             status_mapping demo_env (fin_status (?fin ps)) = Some (?passed ps)"
    by (simp add: model_simps demo_simps)
  show ?thesis
    using test_runner_sequence [OF h, of "\<lparr>tr_class = ''HumanTestResult'', tr_seed = None\<rparr>"]
    by (simp add: bare_def demo_finished_def)
qed

text \<open>
  C6. The claim: for every list of parameter sets the default loop runs every test and
  then calls \<^verbatim>\<open>end_tests\<close>; nothing aborts it. The code does not: on the list of
  \<^verbatim>\<open>noattr\<close> and \<^verbatim>\<open>sleeptest\<close> the loop calls \<^verbatim>\<open>start_tests\<close>, the resolver raises
  \<^verbatim>\<open>UnboundLocalError\<close> for \<^verbatim>\<open>noattr\<close> (the defect of C1), and the exception leaves the
  loop: \<^verbatim>\<open>sleeptest\<close>, which resolves, is never run, no \<^verbatim>\<open>check_test\<close> is made and
  \<^verbatim>\<open>end_tests\<close> is never called.
\<close>

theorem loop_aborted_by_resolver:
  "load_test_instance demo_env (Job_init demo_env None) (bare ''sleeptest'') =
     Inr (New_by_name (ModuleTest ''sleeptest'') ''sleeptest'' ''/logs/run-1'' (bare ''sleeptest'')
            ''7c7b4d2e'') \<and>
   test_runner demo_env [bare ''noattr'', bare ''sleeptest'']
     \<lparr>tr_class = ''HumanTestResult'', tr_seed = None\<rparr> (Job_init demo_env None) =
     (Inl \<lparr>kind = OtherException, exc_class = ''UnboundLocalError'',
           exc_str = ''local variable test_class referenced before assignment'',
           exc_tb = [''test_runner'', ''run_test'', ''_load_test_instance'']\<rparr>,
      (Job_init demo_env None)\<lparr>calls := [Start_tests]\<rparr>)"
  by (simp add: model_simps demo_simps)

subsection \<open>The controller\<close>

text \<open>
  C8. When the execution loop has returned, \<^verbatim>\<open>_run\<close> leaves the job with status \<^verbatim>\<open>PASS\<close> if
  the loop left it \<^verbatim>\<open>RUNNING\<close>, and with the status the loop left otherwise.
\<close>

theorem status_after_loop:
  assumes "fst (run_loop env urls mf j) = Inr failures"
  shows "status (snd (unhandled_run env urls mf j)) =
           (if status (snd (run_loop env urls mf j)) = ''RUNNING'' then ''PASS''
            else status (snd (run_loop env urls mf j)))"
  using assms
  by (cases "run_loop env urls mf j")
     (simp add: unhandled_run_def finish_def record_call_def split: option.splits)

theorem status_after_loop_witness:
  "fst (run_loop demo_env (Some (Urls_list [''fatal''])) None (Job_init demo_env None)) =
     Inr [''fatal''] \<and>
   status (snd (run_loop demo_env (Some (Urls_list [''fatal''])) None (Job_init demo_env None))) =
     ''FAIL'' \<and>
   status (snd (unhandled_run demo_env (Some (Urls_list [''fatal''])) None
                  (Job_init demo_env None))) = ''FAIL'' \<and>
   fst (run_loop demo_env (Some (Urls_list [''sleeptest''])) None (Job_init demo_env None)) =
     Inr [] \<and>
   status (snd (run_loop demo_env (Some (Urls_list [''sleeptest''])) None
                  (Job_init demo_env None))) = ''RUNNING'' \<and>
   status (snd (unhandled_run demo_env (Some (Urls_list [''sleeptest''])) None
                  (Job_init demo_env None))) = ''PASS''"
proof -
  have a: "fst (run_loop demo_env (Some (Urls_list [''fatal''])) None (Job_init demo_env None)) =
     Inr [''fatal'']"
    by (simp add: model_simps demo_simps)
  have b: "status (snd (run_loop demo_env (Some (Urls_list [''fatal''])) None
                          (Job_init demo_env None))) = ''FAIL''"
    by (simp add: model_simps demo_simps)
  have c: "fst (run_loop demo_env (Some (Urls_list [''sleeptest''])) None
                  (Job_init demo_env None)) = Inr []"
    by (simp add: model_simps demo_simps)
  have d: "status (snd (run_loop demo_env (Some (Urls_list [''sleeptest''])) None
                          (Job_init demo_env None))) = ''RUNNING''"
    by (simp add: model_simps demo_simps)
  show ?thesis
    using status_after_loop [OF a] status_after_loop [OF c] a b c d by simp
qed

text \<open>
  C10. With no identifiers, no multiplex file and the default loop, a job that is \<^verbatim>\<open>RUNNING\<close>
  calls \<^verbatim>\<open>start_tests\<close> and \<^verbatim>\<open>end_tests\<close> (and the cleanup, when its args ask for it), the
  loop returns no failures, and \<^verbatim>\<open>run\<close> returns \<^verbatim>\<open>AVOCADO_ALL_OK\<close> and leaves the status
  \<^verbatim>\<open>PASS\<close>.
\<close>

theorem empty_run:
  assumes "status j = ''RUNNING''"
    and "normalize_urls j urls = None \<or> normalize_urls j urls = Some []"
    and "resolve_multiplex_file env j mf = None"
    and "case args j of None \<Rightarrow> True | Some a \<Rightarrow> arg_test_runner a = None"
  shows "test_runner env [] tr j = (Inr [], j\<lparr>calls := calls j @ [Start_tests, End_tests]\<rparr>) \<and>
         fst (run env urls mf j) = Inr AVOCADO_ALL_OK \<and>
         status (snd (run env urls mf j)) = ''PASS'' \<and>
         calls (snd (run env urls mf j)) =
           calls j @ [Start_tests, End_tests] @
           (case args j of
              None \<Rightarrow> []
            | Some a \<Rightarrow> if arg_keep_tmp_files a then [] else [Clean_tmp_files])"
proof -
  have t: "\<And>k r. test_runner env [] r k = (Inr [], k\<lparr>calls := calls k @ [Start_tests, End_tests]\<rparr>)"
    by (simp add: test_runner_def record_call_def)
  have b: "build_params_list env j urls mf = Inr []"
    using assms(2,3) by (auto simp: build_params_list_def)
  show ?thesis
  proof (cases "args j")
    case None
    then show ?thesis using t b assms(1)
      by (simp add: run_def unhandled_run_def run_loop_def make_test_result_def
          make_test_runner_def finish_def)
  next
    case (Some a)
    then show ?thesis using t b assms(1,4)
      by (simp add: run_def unhandled_run_def run_loop_def make_test_result_def
          make_test_runner_def finish_def record_call_def)
  qed
qed

theorem empty_run_witness:
  "status (Job_init demo_env None) = ''RUNNING'' \<and>
   normalize_urls (Job_init demo_env None) None = None \<and>
   resolve_multiplex_file demo_env (Job_init demo_env None) None = None \<and>
   fst (run demo_env None None (Job_init demo_env None)) = Inr AVOCADO_ALL_OK \<and>
   status (snd (run demo_env None None (Job_init demo_env None))) = ''PASS'' \<and>
   calls (snd (run demo_env None None (Job_init demo_env None))) = [Start_tests, End_tests]"
proof -
  have a: "status (Job_init demo_env None) = ''RUNNING''" by simp
  have b: "normalize_urls (Job_init demo_env None) None = None \<or>
           normalize_urls (Job_init demo_env None) None = Some []"
    by (simp add: normalize_urls_def)
  have c: "resolve_multiplex_file demo_env (Job_init demo_env None) None = None"
    by (simp add: resolve_multiplex_file_def)
  have d: "case args (Job_init demo_env None) of None \<Rightarrow> True
           | Some a \<Rightarrow> arg_test_runner a = None"
    by simp
  show ?thesis
    using empty_run [OF a b c d] c by (simp add: normalize_urls_def)
qed


subsection \<open>Runs of jobs that are set up alike\<close>

text \<open>
  Every step of a run leaves the job set up as it was, and returns the same result (or
  raises the same exception) on jobs that are set up alike.
\<close>

lemma same_options_refl: "same_options x x"
  by (simp add: same_options_def split: option.splits)

lemma same_options_sym: "same_options x y \<Longrightarrow> same_options y x"
  by (auto simp: same_options_def split: option.splits)

lemma same_options_trans: "same_options x y \<Longrightarrow> same_options y z \<Longrightarrow> same_options x z"
  by (auto simp: same_options_def split: option.splits)

lemma same_setup_refl: "same_setup j j"
  by (simp add: same_setup_def same_options_refl)

lemma same_setup_sym: "same_setup j k \<Longrightarrow> same_setup k j"
  by (auto simp: same_setup_def dest: same_options_sym)

lemma same_setup_trans: "same_setup j k \<Longrightarrow> same_setup k l \<Longrightarrow> same_setup j l"
  by (auto simp: same_setup_def dest: same_options_trans)

lemma same_setup_status_calls:
  "same_setup j (k\<lparr>status := s\<rparr>) = same_setup j k"
  "same_setup j (k\<lparr>calls := cs\<rparr>) = same_setup j k"
  by (simp_all add: same_setup_def)

lemma same_setup_record_call: "same_setup j (record_call c k) = same_setup j k"
  by (simp add: record_call_def same_setup_status_calls)

lemma same_setup_set_job_status: "same_setup j (set_job_status s k) = same_setup j k"
  by (simp add: set_job_status_def same_setup_status_calls split: option.splits)

lemma run_test_setup: "same_setup j (snd (run_test env ps j))"
  by (simp add: run_test_def Let_def same_setup_record_call same_setup_set_job_status
      same_setup_refl split: sum.splits)

lemma run_test_alike:
  assumes "same_setup j k"
  shows "fst (run_test env ps j) = fst (run_test env ps k)"
proof -
  have "load_test_instance env j ps = load_test_instance env k ps"
    using assms by (intro load_test_instance_fields) (simp_all add: same_setup_def)
  then show ?thesis
    by (simp add: run_test_def Let_def split: sum.splits)
qed

lemma test_loop_setup: "same_setup j (snd (test_loop env params_list failures j))"
proof (induction params_list arbitrary: failures j)
  case Nil
  show ?case by (simp add: same_setup_refl)
next
  case (Cons ps rest)
  obtain r j1 where r: "run_test env ps j = (r, j1)" by (cases "run_test env ps j")
  have s1: "same_setup j j1" using run_test_setup [of j env ps] r by simp
  show ?case
  proof (cases r)
    case (Inl e)
    then show ?thesis using r s1 by simp
  next
    case (Inr v)
    obtain i f where v: "v = (i, f)" by (cases v)
    let ?j2 = "record_call (Check_test i f) j1"
    have s2: "same_setup j ?j2" using s1 by (simp add: same_setup_record_call)
    show ?thesis
    proof (cases "status_mapping env (fin_status f)")
      case None
      then show ?thesis using r Inr v s2 by simp
    next
      case (Some passed)
      then show ?thesis
        using r Inr v same_setup_trans [OF s2 Cons.IH [of ?j2]]
        by simp
    qed
  qed
qed

lemma test_loop_alike:
  assumes "same_setup j k"
  shows "fst (test_loop env params_list failures j) = fst (test_loop env params_list failures k)"
  using assms
proof (induction params_list arbitrary: failures j k)
  case Nil
  show ?case by simp
next
  case (Cons ps rest)
  obtain r j1 where rj: "run_test env ps j = (r, j1)" by (cases "run_test env ps j")
  obtain r' k1 where rk: "run_test env ps k = (r', k1)" by (cases "run_test env ps k")
  have rr: "r' = r" using run_test_alike [OF Cons.prems, of env ps] rj rk by simp
  have "same_setup j j1" "same_setup k k1"
    using run_test_setup [of j env ps] run_test_setup [of k env ps] rj rk by simp_all
  then have s1: "same_setup j1 k1"
    using Cons.prems same_setup_sym same_setup_trans by blast
  show ?case
  proof (cases r)
    case (Inl e)
    then show ?thesis using rj rk rr by simp
  next
    case (Inr v)
    obtain i f where v: "v = (i, f)" by (cases v)
    have s2: "same_setup (record_call (Check_test i f) j1) (record_call (Check_test i f) k1)"
      using s1 same_setup_sym same_setup_record_call by blast
    show ?thesis
    proof (cases "status_mapping env (fin_status f)")
      case None
      then show ?thesis using rj rk rr Inr v by simp
    next
      case (Some passed)
      then show ?thesis using rj rk rr Inr v Cons.IH [OF s2] by simp
    qed
  qed
qed


lemma test_runner_setup: "same_setup j (snd (test_runner env params_list tr j))"
proof -
  obtain r j1 where l: "test_loop env params_list [] (record_call Start_tests j) = (r, j1)"
    by (cases "test_loop env params_list [] (record_call Start_tests j)")
  have "same_setup (record_call Start_tests j) j1"
    using test_loop_setup [of "record_call Start_tests j" env params_list "[]"] l by simp
  then have "same_setup j j1"
    using same_setup_record_call same_setup_sym by blast
  then show ?thesis
    using l by (simp add: test_runner_def same_setup_record_call split: sum.splits)
qed

lemma test_runner_alike:
  assumes "same_setup j k"
  shows "fst (test_runner env params_list tr j) = fst (test_runner env params_list tr k)"
proof -
  have "same_setup (record_call Start_tests j) (record_call Start_tests k)"
    using assms same_setup_record_call same_setup_sym by blast
  from test_loop_alike [OF this, of env params_list "[]"] show ?thesis
    by (auto simp: test_runner_def split: prod.splits sum.splits)
qed

lemma external_runner_setup: "same_setup j (snd (external_runner r params_list tr j))"
  by (simp add: external_runner_def same_setup_set_job_status same_setup_refl
      split: sum.splits prod.splits)

lemma external_runner_alike:
  "fst (external_runner r params_list tr j) = fst (external_runner r params_list tr k)"
  by (simp add: external_runner_def split: sum.splits prod.splits)

lemma make_test_runner_choice:
  assumes "same_setup j k"
  shows "make_test_runner env j = make_test_runner env k"
  using assms
  by (auto simp: make_test_runner_def same_setup_def same_options_def split: option.splits)

lemma make_test_runner_setup:
  "same_setup j (snd (make_test_runner env j0 params_list tr j))"
  by (simp add: make_test_runner_def test_runner_setup external_runner_setup
      split: option.splits)

lemma make_test_runner_alike:
  assumes "same_setup j k"
  shows "fst (make_test_runner env j0 params_list tr j) =
         fst (make_test_runner env j0 params_list tr k)"
  using test_runner_alike [OF assms] external_runner_alike
  by (simp add: make_test_runner_def split: option.splits)

lemma make_test_result_setup: "same_setup j (snd (make_test_result urls j))"
  by (simp add: make_test_result_def same_setup_def same_options_def split: option.splits)

lemma make_test_result_alike:
  assumes "same_setup j k"
  shows "fst (make_test_result urls j) = fst (make_test_result urls k)"
  using assms
  by (auto simp: make_test_result_def same_setup_def same_options_def split: option.splits)

lemma build_params_list_alike:
  assumes "same_setup j k"
  shows "build_params_list env j urls mf = build_params_list env k urls mf"
proof -
  have "normalize_urls j urls = normalize_urls k urls"
    using assms
    by (auto simp: normalize_urls_def same_setup_def same_options_def split: option.splits)
  moreover have "resolve_multiplex_file env j mf = resolve_multiplex_file env k mf"
    using assms
    by (auto simp: resolve_multiplex_file_def same_setup_def same_options_def
        split: option.splits)
  ultimately show ?thesis by (simp add: build_params_list_def)
qed

lemma run_loop_setup: "same_setup j (snd (run_loop env urls mf j))"
proof (cases "build_params_list env j urls mf")
  case (Inl e)
  then show ?thesis by (simp add: run_loop_def same_setup_refl)
next
  case (Inr params_list)
  obtain tr j1 where m: "make_test_result params_list j = (tr, j1)"
    by (cases "make_test_result params_list j")
  have "same_setup j j1" using make_test_result_setup [of j params_list] m by simp
  then have "same_setup j (snd (make_test_runner env j1 params_list tr j1))"
    using make_test_runner_setup same_setup_trans by blast
  then show ?thesis using Inr m by (simp add: run_loop_def)
qed

lemma run_loop_alike:
  assumes "same_setup j k"
  shows "fst (run_loop env urls mf j) = fst (run_loop env urls mf k)"
proof (cases "build_params_list env j urls mf")
  case (Inl e)
  then show ?thesis using build_params_list_alike [OF assms, of env urls mf]
    by (simp add: run_loop_def)
next
  case (Inr params_list)
  obtain tr j1 where mj: "make_test_result params_list j = (tr, j1)"
    by (cases "make_test_result params_list j")
  obtain tr' k1 where mk: "make_test_result params_list k = (tr', k1)"
    by (cases "make_test_result params_list k")
  have t: "tr' = tr" using make_test_result_alike [OF assms, of params_list] mj mk by simp
  have "same_setup j j1" "same_setup k k1"
    using make_test_result_setup [of j params_list] make_test_result_setup [of k params_list]
      mj mk by simp_all
  then have s: "same_setup j1 k1"
    using assms same_setup_sym same_setup_trans by blast
  have "fst (make_test_runner env j1 params_list tr j1) =
        fst (make_test_runner env k1 params_list tr k1)"
    using make_test_runner_choice [OF s, of env] make_test_runner_alike [OF s] by simp
  then show ?thesis
    using Inr build_params_list_alike [OF assms, of env urls mf] mj mk t
    by (simp add: run_loop_def)
qed

lemma finish_setup: "same_setup j (snd (finish failures j))"
  by (simp add: finish_def Let_def same_setup_record_call same_setup_status_calls
      same_setup_refl split: option.splits)

lemma unhandled_run_setup: "same_setup j (snd (unhandled_run env urls mf j))"
proof -
  obtain r j1 where l: "run_loop env urls mf j = (r, j1)" by (cases "run_loop env urls mf j")
  have s: "same_setup j j1" using run_loop_setup [of j env urls mf] l by simp
  show ?thesis
  proof (cases r)
    case (Inl e)
    then show ?thesis using l s by (simp add: unhandled_run_def)
  next
    case (Inr failures)
    have "same_setup j (snd (finish failures j1))"
      using s finish_setup same_setup_trans by blast
    then show ?thesis using l Inr by (auto simp: unhandled_run_def split: prod.splits)
  qed
qed

lemma unhandled_run_code:
  "fst (unhandled_run env urls mf j) =
     (case fst (run_loop env urls mf j) of
        Inl e \<Rightarrow> Inl (push_frame ''_run'' e)
      | Inr failures \<Rightarrow> Inr (if failures = [] then AVOCADO_ALL_OK else AVOCADO_TESTS_FAIL))"
  by (cases "run_loop env urls mf j")
     (simp add: unhandled_run_def finish_def Let_def split: sum.splits)

text \<open>
  C3. When \<^verbatim>\<open>_run\<close> returns, the execution loop has returned a list of failures, and the
  code is \<^verbatim>\<open>AVOCADO_ALL_OK\<close> if that list is empty and \<^verbatim>\<open>AVOCADO_TESTS_FAIL\<close> if it is not.
  Running \<^verbatim>\<open>_run\<close> again with the same arguments on the job the first run left, in the same
  environment, returns the same code.
\<close>

theorem exit_code_from_failures:
  assumes "fst (unhandled_run env urls mf j) = Inr code"
  shows "(\<exists>failures. fst (run_loop env urls mf j) = Inr failures \<and>
            code = (if failures = [] then AVOCADO_ALL_OK else AVOCADO_TESTS_FAIL)) \<and>
         fst (unhandled_run env urls mf (snd (unhandled_run env urls mf j))) = Inr code"
proof -
  have a: "\<exists>failures. fst (run_loop env urls mf j) = Inr failures \<and>
            code = (if failures = [] then AVOCADO_ALL_OK else AVOCADO_TESTS_FAIL)"
    using assms unfolding unhandled_run_code by (cases "fst (run_loop env urls mf j)") auto
  have "fst (run_loop env urls mf (snd (unhandled_run env urls mf j))) =
        fst (run_loop env urls mf j)"
    using run_loop_alike [OF unhandled_run_setup, of env urls mf j env urls mf] by simp
  then have "fst (unhandled_run env urls mf (snd (unhandled_run env urls mf j))) =
             fst (unhandled_run env urls mf j)"
    by (simp add: unhandled_run_code)
  then show ?thesis using a assms by simp
qed

theorem exit_code_from_failures_witness:
  "fst (unhandled_run demo_env None None (Job_init demo_env (Some demo_args))) =
     Inr AVOCADO_TESTS_FAIL \<and>
   fst (run_loop demo_env None None (Job_init demo_env (Some demo_args))) = Inr [''missing''] \<and>
   fst (unhandled_run demo_env None None
          (snd (unhandled_run demo_env None None (Job_init demo_env (Some demo_args))))) =
     Inr AVOCADO_TESTS_FAIL \<and>
   fst (unhandled_run demo_env (Some (Urls_str ''sleeptest dropin'')) None
          (Job_init demo_env None)) = Inr AVOCADO_ALL_OK \<and>
   fst (run_loop demo_env (Some (Urls_str ''sleeptest dropin'')) None
          (Job_init demo_env None)) = Inr [] \<and>
   fst (unhandled_run demo_env (Some (Urls_str ''sleeptest dropin'')) None
          (snd (unhandled_run demo_env (Some (Urls_str ''sleeptest dropin'')) None
                  (Job_init demo_env None)))) = Inr AVOCADO_ALL_OK"
proof -
  have a: "fst (unhandled_run demo_env None None (Job_init demo_env (Some demo_args))) =
     Inr AVOCADO_TESTS_FAIL"
    by (simp add: model_simps demo_simps)
  have b: "fst (run_loop demo_env None None (Job_init demo_env (Some demo_args))) =
     Inr [''missing'']"
    by (simp add: model_simps demo_simps)
  have c: "fst (unhandled_run demo_env (Some (Urls_str ''sleeptest dropin'')) None
          (Job_init demo_env None)) = Inr AVOCADO_ALL_OK"
    by (simp add: model_simps demo_simps)
  have d: "fst (run_loop demo_env (Some (Urls_str ''sleeptest dropin'')) None
          (Job_init demo_env None)) = Inr []"
    by (simp add: model_simps demo_simps)
  show ?thesis
    using exit_code_from_failures [OF a] exit_code_from_failures [OF c] a b c d by simp
qed


subsection \<open>The cleanup of temporary files\<close>

text \<open>
  No step before the end of \<^verbatim>\<open>_run\<close> cleans up, and neither clause of \<^verbatim>\<open>run\<close> does.
\<close>

lemma cleanups_updates:
  "cleanups (j\<lparr>status := s\<rparr>) = cleanups j"
  "cleanups (j\<lparr>args := a\<rparr>) = cleanups j"
  "cleanups (set_job_status so j) = cleanups j"
  "cleanups (record_call c j) = cleanups j + (if is_cleanup c then 1 else 0)"
  by (simp_all add: cleanups_def set_job_status_def record_call_def split: option.splits)

lemma cleanups_run_test: "cleanups (snd (run_test env ps j)) = cleanups j"
  by (simp add: run_test_def Let_def cleanups_updates split: sum.splits)

lemma cleanups_test_loop: "cleanups (snd (test_loop env params_list failures j)) = cleanups j"
proof (induction params_list arbitrary: failures j)
  case Nil
  show ?case by simp
next
  case (Cons ps rest)
  obtain r j1 where r: "run_test env ps j = (r, j1)" by (cases "run_test env ps j")
  have c1: "cleanups j1 = cleanups j" using cleanups_run_test [of env ps j] r by simp
  show ?case
  proof (cases r)
    case (Inl e)
    then show ?thesis using r c1 by simp
  next
    case (Inr v)
    obtain i f where v: "v = (i, f)" by (cases v)
    have c2: "cleanups (record_call (Check_test i f) j1) = cleanups j"
      using c1 by (simp add: cleanups_updates)
    show ?thesis
      using r Inr v c2 Cons.IH [of _ "record_call (Check_test i f) j1"]
      by (cases "status_mapping env (fin_status f)") simp_all
  qed
qed

lemma cleanups_test_runner: "cleanups (snd (test_runner env params_list tr j)) = cleanups j"
proof -
  obtain r j1 where l: "test_loop env params_list [] (record_call Start_tests j) = (r, j1)"
    by (cases "test_loop env params_list [] (record_call Start_tests j)")
  have "cleanups j1 = cleanups j"
    using cleanups_test_loop [of env params_list "[]" "record_call Start_tests j"] l
    by (simp add: cleanups_updates)
  then show ?thesis
    using l by (simp add: test_runner_def cleanups_updates split: sum.splits)
qed

lemma cleanups_external_runner:
  "cleanups (snd (external_runner r params_list tr j)) = cleanups j"
  by (simp add: external_runner_def cleanups_updates split: sum.splits prod.splits)

lemma cleanups_make_test_runner:
  "cleanups (snd (make_test_runner env j0 params_list tr j)) = cleanups j"
  by (simp add: make_test_runner_def cleanups_test_runner cleanups_external_runner
      split: option.splits)

lemma cleanups_make_test_result: "cleanups (snd (make_test_result urls j)) = cleanups j"
  by (simp add: make_test_result_def cleanups_updates split: option.splits)

lemma cleanups_run_loop: "cleanups (snd (run_loop env urls mf j)) = cleanups j"
proof (cases "build_params_list env j urls mf")
  case (Inl e)
  then show ?thesis by (simp add: run_loop_def)
next
  case (Inr params_list)
  obtain tr j1 where m: "make_test_result params_list j = (tr, j1)"
    by (cases "make_test_result params_list j")
  have "cleanups j1 = cleanups j" using cleanups_make_test_result [of params_list j] m by simp
  then show ?thesis using Inr m by (simp add: run_loop_def cleanups_make_test_runner)
qed

lemma cleanup_due_alike:
  assumes "same_setup j k"
  shows "cleanup_due k = cleanup_due j"
  using assms
  by (auto simp: cleanup_due_def same_setup_def same_options_def split: option.splits)

lemma cleanups_finish: "cleanups (snd (finish failures j)) = cleanups j + cleanup_due j"
  by (simp add: finish_def Let_def cleanup_due_def cleanups_updates split: option.splits)

lemma cleanups_unhandled_run:
  "cleanups (snd (unhandled_run env urls mf j)) =
     cleanups j + (case fst (run_loop env urls mf j) of Inl e \<Rightarrow> 0 | Inr failures \<Rightarrow> cleanup_due j)"
proof -
  obtain r j1 where l: "run_loop env urls mf j = (r, j1)" by (cases "run_loop env urls mf j")
  have c: "cleanups j1 = cleanups j" using cleanups_run_loop [of env urls mf j] l by simp
  have d: "cleanup_due j1 = cleanup_due j"
    using cleanup_due_alike [OF run_loop_setup [of j env urls mf]] l by simp
  show ?thesis
  proof (cases r)
    case (Inl e)
    then show ?thesis using l c by (simp add: unhandled_run_def)
  next
    case (Inr failures)
    then show ?thesis
      using l c d cleanups_finish [of failures j1]
      by (auto simp: unhandled_run_def split: prod.splits)
  qed
qed

lemma cleanups_emit_fail_header: "cleanups (snd (emit_fail_header env msg j)) = cleanups j"
  by (simp add: emit_fail_header_def cleanups_updates split: option.splits)

lemma cleanups_emit_errors: "cleanups (snd (emit_errors env ls j)) = cleanups j"
  by (induction ls arbitrary: j) (simp_all add: cleanups_updates split: option.splits)

lemma cleanups_job_failed: "cleanups (snd (job_failed env st details j)) = cleanups j"
proof (cases "format_failure env ''Avocado job failed: '' details")
  case (Inl e)
  then show ?thesis by (simp add: job_failed_def cleanups_updates)
next
  case (Inr msg)
  obtain r j2 where h: "emit_fail_header env msg (j\<lparr>status := st\<rparr>) = (r, j2)"
    by (cases "emit_fail_header env msg (j\<lparr>status := st\<rparr>)")
  have "cleanups j2 = cleanups j"
    using cleanups_emit_fail_header [of env msg "j\<lparr>status := st\<rparr>"] h
    by (simp add: cleanups_updates)
  then show ?thesis using Inr h by (cases r) (simp_all add: job_failed_def)
qed

lemma cleanups_crashed: "cleanups (snd (crashed env details j)) = cleanups j"
proof (cases "format_failure env ''Avocado crashed: '' details")
  case (Inl e)
  then show ?thesis by (simp add: crashed_def cleanups_updates)
next
  case (Inr msg)
  let ?j1 = "j\<lparr>status := ''ERROR''\<rparr>"
  let ?tb = "format_exception env (exc_class details) (exc_str details) (exc_tb details)"
  obtain r2 j2 where h2: "emit_fail_header env msg ?j1 = (r2, j2)"
    by (cases "emit_fail_header env msg ?j1")
  obtain r3 j3 where h3: "emit_errors env ?tb j2 = (r3, j3)"
    by (cases "emit_errors env ?tb j2")
  obtain r4 j4 where h4: "emit_fail_header env
      ''Please include the traceback info and command line used on your bug report'' j3 = (r4, j4)"
    by (cases "emit_fail_header env
      ''Please include the traceback info and command line used on your bug report'' j3")
  obtain r5 j5 where h5:
    "emit_fail_header env (''Report bugs visiting '' @ NEW_ISSUE_LINK) j4 = (r5, j5)"
    by (cases "emit_fail_header env (''Report bugs visiting '' @ NEW_ISSUE_LINK) j4")
  have c2: "cleanups j2 = cleanups j"
    using cleanups_emit_fail_header [of env msg ?j1] h2 by (simp add: cleanups_updates)
  have c3: "cleanups j3 = cleanups j"
    using cleanups_emit_errors [of env ?tb j2] h3 c2 by simp
  have c4: "cleanups j4 = cleanups j"
    using cleanups_emit_fail_header [of env
        "''Please include the traceback info and command line used on your bug report''" j3]
      h4 c3 by simp
  have c5: "cleanups j5 = cleanups j"
    using cleanups_emit_fail_header [of env "''Report bugs visiting '' @ NEW_ISSUE_LINK" j4]
      h5 c4 by simp
  show ?thesis
    using Inr h2 h3 h4 h5 c2 c3 c4 c5
    by (cases r2; cases r3; cases r4; cases r5) (simp_all add: crashed_def)
qed

lemma cleanups_from_handler: "cleanups (snd (from_handler r)) = cleanups (snd r)"
  by (cases r) (simp add: from_handler_def split: sum.splits)

lemma cleanups_run:
  "cleanups (snd (run env urls mf j)) = cleanups (snd (unhandled_run env urls mf j))"
proof -
  obtain r j1 where u: "unhandled_run env urls mf j = (r, j1)"
    by (cases "unhandled_run env urls mf j")
  show ?thesis
  proof (cases r)
    case (Inr code)
    then show ?thesis using u by (simp add: run_def)
  next
    case (Inl details)
    then show ?thesis
      using u
      by (cases "kind details")
         (simp_all add: run_def cleanups_from_handler cleanups_job_failed cleanups_crashed)
  qed
qed

text \<open>
  C9. A run of a job constructed with no args never calls \<^verbatim>\<open>clean_tmp_files\<close>. In general
  a run adds one call of it when the execution loop has returned and the job has args
  whose \<^verbatim>\<open>keep_tmp_files\<close> is false, and none otherwise.
\<close>

theorem cleanup_needs_args:
  "cleanups (snd (run env urls mf (Job_init env None))) = 0 \<and>
   cleanups (snd (run env urls mf j)) =
     cleanups j +
     (case fst (run_loop env urls mf j) of
        Inl e \<Rightarrow> 0
      | Inr failures \<Rightarrow>
          (case args j of None \<Rightarrow> 0 | Some a \<Rightarrow> if arg_keep_tmp_files a then 0 else 1))"
proof -
  have g: "\<And>k. cleanups (snd (run env urls mf k)) =
     cleanups k +
     (case fst (run_loop env urls mf k) of
        Inl e \<Rightarrow> 0
      | Inr failures \<Rightarrow>
          (case args k of None \<Rightarrow> 0 | Some a \<Rightarrow> if arg_keep_tmp_files a then 0 else 1))"
    unfolding cleanups_run cleanups_unhandled_run cleanup_due_def by (rule refl)
  have "cleanups (Job_init env None) = 0" by (simp add: cleanups_def)
  then have "cleanups (snd (run env urls mf (Job_init env None))) = 0"
    using g [of "Job_init env None"] by (simp split: sum.splits)
  then show ?thesis using g [of j] by simp
qed

theorem cleanup_needs_args_witness:
  "fst (run demo_env (Some (Urls_list [''sleeptest''])) None (Job_init demo_env None)) =
     Inr AVOCADO_ALL_OK \<and>
   cleanups (snd (run demo_env (Some (Urls_list [''sleeptest''])) None
                    (Job_init demo_env None))) = 0 \<and>
   cleanups (snd (run demo_env None None (Job_init demo_env (Some demo_args)))) = 1 \<and>
   cleanups (snd (run demo_env None None
                    (Job_init demo_env (Some (demo_args\<lparr>arg_keep_tmp_files := True\<rparr>))))) = 0"
proof -
  have a: "fst (run demo_env (Some (Urls_list [''sleeptest''])) None (Job_init demo_env None)) =
     Inr AVOCADO_ALL_OK"
    by (simp add: model_simps demo_simps)
  have b: "fst (run_loop demo_env None None (Job_init demo_env (Some demo_args))) =
     Inr [''missing'']"
    by (simp add: model_simps demo_simps)
  have c: "fst (run_loop demo_env None None
             (Job_init demo_env (Some (demo_args\<lparr>arg_keep_tmp_files := True\<rparr>)))) =
     Inr [''missing'']"
    by (simp add: model_simps demo_simps)
  have z: "\<And>a. cleanups (Job_init demo_env a) = 0"
    by (simp add: cleanups_def)
  show ?thesis
    using a b c z
      cleanup_needs_args [of demo_env "Some (Urls_list [''sleeptest''])" None
        "Job_init demo_env None"]
      cleanup_needs_args [of demo_env None None "Job_init demo_env (Some demo_args)"]
      cleanup_needs_args [of demo_env None None
        "Job_init demo_env (Some (demo_args\<lparr>arg_keep_tmp_files := True\<rparr>))"]
    by (simp add: demo_args_def)
qed

subsection \<open>The failure classifier\<close>








text \<open>
  An exception raised inside a handler leaves \<^verbatim>\<open>run\<close> too: here \<^verbatim>\<open>str(details)\<close> raises
  while the header of the crash is formatted, after the status was set to \<^verbatim>\<open>ERROR\<close> and
  before anything was logged.
\<close>

lemma run_handler_raises_example:
  "run demo_env (Some (Urls_list [''unicode''])) None (Job_init demo_env None) =
     (Inl \<lparr>kind = OtherException, exc_class = ''UnicodeEncodeError'',
           exc_str = ''ordinal not in range(128)'', exc_tb = [''run'']\<rparr>,
      (Job_init demo_env None)
        \<lparr>status := ''ERROR'',
         calls :=
           [Start_tests,
            Run_avocado (New_by_name MissingTest ''unicode'' ''/logs/run-1'' (bare ''unicode'')
                           ''7c7b4d2e'')]\<rparr>)"
  by (simp add: model_simps demo_simps)



end
